theory Spec2Isabelle
  imports Main "HOL-Library.Word"
begin

section \<open>cmd/run.go: the run command of the werft server\<close>

subsection \<open>Values handed between the command and its libraries\<close>

text \<open>
  Go's \<^verbatim>\<open>error\<close> interface, by its message. A nil error is \<open>None\<close> of
  \<open>error option\<close>; a call returning \<^verbatim>\<open>(T, error)\<close> is a sum, \<open>Inl\<close> the error.
\<close>

datatype error = Error string

text \<open>
  Objects of the libraries are opaque to run.go: it only passes them on. Each is a
  handle. \<^verbatim>\<open>github.NewClient(&http.Client{Transport: ghtr})\<close> is a plain constructor.
\<close>

datatype rest_Config = RestConfigRef nat
datatype http_RoundTripper = RoundTripperRef nat
datatype ghinstallation_Transport = TransportRef nat
datatype github_Client = NewClient ghinstallation_Transport
datatype sql_DB = DBRef nat
datatype FileLogStore = FileLogStoreRef nat
datatype SQLJobStore = SQLJobStoreRef nat
datatype executor_Executor = ExecutorRef nat

text \<open>
  Modelled from the spec: the interfaces \<^verbatim>\<open>store.Logs\<close> and \<^verbatim>\<open>store.Jobs\<close> of
  pkg/store (the package is not among the sources). The spec (section 9) describes a
  storage backend as a capability interface with two variants, file-based and
  relational. The variants run.go constructs carry the concrete store; the other
  variant of each interface is kept as a handle.
\<close>

datatype store_Logs = FileLogs FileLogStore | RelationalLogs nat
datatype store_Jobs = FileJobs nat | SQLJobs SQLJobStore

text \<open>
  Modelled from the spec: the two kinds of storage backend (sections 6 and 9), and the
  kind of each variant of the two interfaces.
\<close>

datatype backend = FileBased | Relational

fun logs_backend :: "store_Logs \<Rightarrow> backend" where
  "logs_backend (FileLogs _) = FileBased"
| "logs_backend (RelationalLogs _) = Relational"

fun jobs_backend :: "store_Jobs \<Rightarrow> backend" where
  "jobs_backend (FileJobs _) = FileBased"
| "jobs_backend (SQLJobs _) = Relational"

text \<open>
  Modelled from the spec: \<^verbatim>\<open>logcutter.Cutter\<close> of pkg/logcutter (not among the sources).
  Section 4.2: the policy recognises a configurable boundary marker in the line text and
  names the new segment from the marker; lines before any marker attach to an implicit
  default segment. A cutter configuration is therefore its marker recogniser (the name
  of the segment a marker line opens, \<open>None\<close> for any other line) and the name of the
  implicit default segment.
\<close>

record Cutter =
  marker :: "string \<Rightarrow> string option"
  default_segment :: string

subsection \<open>The configuration file (type Config)\<close>

text \<open>Go's \<^verbatim>\<open>int\<close> (on a 64-bit platform) and \<^verbatim>\<open>int64\<close> are 64-bit words, read signed.\<close>

record Config_Service =
  WebPort :: "64 word"
  GRPCPort :: "64 word"

record Config_Storage =
  LogStore :: string
  JobStore :: string

record Config_Kubernetes =
  Kubeconfig :: string
  Namespace :: string

record Config_GitHub =
  WebhookSecret :: string
  PrivateKeyPath :: string
  InstallationID :: "64 word"
  AppID :: "64 word"

record Config =
  Service :: Config_Service
  Storage :: Config_Storage
  Kubernetes :: Config_Kubernetes
  GitHub :: Config_GitHub

subsection \<open>The values the command builds\<close>

text \<open>\<^verbatim>\<open>executor.Config\<close>: run.go sets its one field \<^verbatim>\<open>Namespace\<close>.\<close>

record executor_Config =
  Namespace :: string

text \<open>
  \<^verbatim>\<open>werft.GitHubSetup\<close> and \<^verbatim>\<open>werft.Service\<close>, with the fields run.go sets
  (\<^verbatim>\<open>[]byte(s)\<close> of a string is the string's bytes, which \<open>string\<close> already is).
\<close>

record werft_GitHubSetup =
  WebhookSecret :: string
  Client :: github_Client

record werft_Service =
  Logs :: store_Logs
  Jobs :: store_Jobs
  Executor :: executor_Executor
  Cutter :: Cutter
  GitHub :: werft_GitHubSetup
  DebugProxy :: string

subsection \<open>The world outside the command\<close>

text \<open>
  Every call that leaves run.go is answered by the world: the file system, the JSON
  decoder (for the type \<^verbatim>\<open>Config\<close>), the Kubernetes client libraries, the GitHub
  key loader, the stores, the database driver, the executor, and whether a SIGINT or
  SIGTERM ever arrives. The two package-level variables the command reads,
  \<^verbatim>\<open>http.DefaultTransport\<close> and \<^verbatim>\<open>logcutter.DefaultCutter\<close>, are process-wide state and
  belong to the world as well. Each call is made at most once in a run, so a function of
  the call's arguments describes its answer.
\<close>

record world =
  ioutil_ReadFile :: "string \<Rightarrow> error + string"
  json_Unmarshal :: "string \<Rightarrow> error + Config"
  rest_InClusterConfig :: "error + rest_Config"
  clientcmd_BuildConfigFromFlags :: "string \<Rightarrow> string \<Rightarrow> error + rest_Config"
  http_DefaultTransport :: http_RoundTripper
  ghinstallation_NewKeyFromFile ::
    "http_RoundTripper \<Rightarrow> 64 word \<Rightarrow> 64 word \<Rightarrow> string \<Rightarrow> error + ghinstallation_Transport"
  store_NewFileLogStore :: "string \<Rightarrow> error + FileLogStore"
  sql_Open :: "string \<Rightarrow> string \<Rightarrow> error + sql_DB"
  db_Ping :: "sql_DB \<Rightarrow> error option"
  store_NewSQLJobStore :: "sql_DB \<Rightarrow> error + SQLJobStore"
  executor_NewExecutor :: "executor_Config \<Rightarrow> rest_Config \<Rightarrow> error + executor_Executor"
  logcutter_DefaultCutter :: Cutter
  signal_arrives :: bool

text \<open>
  The flags of the command, as parsed by cobra: \<^verbatim>\<open>GetString\<close> returns the value and an
  error when no such flag is defined.
\<close>

type_synonym cobra_Command = "string \<Rightarrow> string option"

definition GetString :: "cobra_Command \<Rightarrow> string \<Rightarrow> string \<times> error option" where
  "GetString cmd name =
     (case cmd name of
        None \<Rightarrow> ('''', Some (Error (''flag accessed but not defined: '' @ name)))
      | Some val \<Rightarrow> (val, None))"

subsection \<open>What a run does and how it ends\<close>

text \<open>
  The calls a run makes, in order. \<open>GoStartWeb\<close> and \<open>GoStartGRPC\<close> are the two
  \<^verbatim>\<open>go\<close> statements: the event is the spawning of the goroutine.
\<close>

datatype event =
    ReadFile string
  | Unmarshal string
  | InClusterConfig
  | BuildConfigFromFlags string string
  | NewKeyFromFile http_RoundTripper "64 word" "64 word" string
  | NewFileLogStore string
  | LogInfo string
  | SqlOpen string string
  | Ping sql_DB
  | NewSQLJobStore sql_DB
  | NewExecutor executor_Config rest_Config
  | ExecutorRun executor_Executor
  | FlagsGetString string
  | ServiceStart werft_Service
  | GoStartWeb werft_Service string
  | GoStartGRPC werft_Service string
  | SignalNotify
  | ReceiveSignal

text \<open>
  A run returns (nil or an error), panics (an index out of range), or blocks forever on
  the signal channel.
\<close>

datatype outcome = Return "error option" | Panic | Blocked

type_synonym run = "event list \<times> outcome"

definition after :: "event list \<Rightarrow> run \<Rightarrow> run" where
  "after evs r = (evs @ fst r, snd r)"

definition fail :: "error \<Rightarrow> run" where
  "fail err = ([], Return (Some err))"

subsection \<open>Formatting with \<^verbatim>\<open>%d\<close>\<close>

fun decimal :: "nat \<Rightarrow> string" where
  "decimal n =
     (if n < 10 then [''0123456789'' ! n]
      else decimal (n div 10) @ [''0123456789'' ! (n mod 10)])"

declare decimal.simps [simp del]

definition sprintf_d :: "int \<Rightarrow> string" where
  "sprintf_d i = (if i < 0 then CHR ''-'' # decimal (nat (- i)) else decimal (nat i))"

subsection \<open>The command\<close>

text \<open>
  \<^verbatim>\<open>cobra.ExactArgs(n)\<close>: the positional-argument check cobra runs before \<^verbatim>\<open>RunE\<close>.
\<close>

definition ExactArgs :: "nat \<Rightarrow> string list \<Rightarrow> error option" where
  "ExactArgs n args =
     (if length args \<noteq> n
      then Some (Error (''accepts '' @ sprintf_d (int n) @ '' arg(s), received '' @
                        sprintf_d (int (length args))))
      else None)"

text \<open>
  Lines 64 to 75: the Kubernetes client configuration, with the call made for it.
  \<^verbatim>\<open>
  if cfg.Kubernetes.Kubeconfig == "" {
      kubeConfig, err = rest.InClusterConfig()
  } else {
      kubeConfig, err = clientcmd.BuildConfigFromFlags("", cfg.Kubernetes.Kubeconfig)
  }
  \<close>
\<close>

definition loadKubeConfig :: "world \<Rightarrow> Config \<Rightarrow> event list \<times> (error + rest_Config)" where
  "loadKubeConfig w cfg =
     (if Kubeconfig (Kubernetes cfg) = ''''
      then ([InClusterConfig], rest_InClusterConfig w)
      else ([BuildConfigFromFlags '''' (Kubeconfig (Kubernetes cfg))],
            clientcmd_BuildConfigFromFlags w '''' (Kubeconfig (Kubernetes cfg))))"

text \<open>
  Lines 83 to 88: the executor's configuration.
  \<^verbatim>\<open>
  execCfg := executor.Config{ Namespace: cfg.Kubernetes.Namespace }
  if execCfg.Namespace == "" { execCfg.Namespace = "default" }
  \<close>
\<close>

definition newExecutorConfig :: "Config \<Rightarrow> executor_Config" where
  "newExecutorConfig cfg =
     (let execCfg = \<lparr>executor_Config.Namespace = Config_Kubernetes.Namespace (Kubernetes cfg)\<rparr>
      in if executor_Config.Namespace execCfg = ''''
         then execCfg\<lparr>executor_Config.Namespace := ''default''\<rparr>
         else execCfg)"

text \<open>
  Lines 115 to 127: the service value, and the debug proxy taken from the flag
  \<^verbatim>\<open>debug-webui-proxy\<close> when the flag is not empty (the flag's error is dropped:
  \<^verbatim>\<open>val, _ := cmd.Flags().GetString(...)\<close>).
\<close>

definition newService ::
  "world \<Rightarrow> cobra_Command \<Rightarrow> Config \<Rightarrow> FileLogStore \<Rightarrow> SQLJobStore \<Rightarrow> executor_Executor \<Rightarrow>
   github_Client \<Rightarrow> werft_Service" where
  "newService w cmd cfg logStore jobStore exec ghClient =
     (let service =
            \<lparr>Logs = FileLogs logStore,
             Jobs = SQLJobs jobStore,
             Executor = exec,
             Cutter = logcutter_DefaultCutter w,
             GitHub = \<lparr>werft_GitHubSetup.WebhookSecret =
                          Config_GitHub.WebhookSecret (Config.GitHub cfg),
                       Client = ghClient\<rparr>,
             DebugProxy = ''''\<rparr>;
          val = fst (GetString cmd ''debug-webui-proxy'')
      in if val \<noteq> '''' then service\<lparr>DebugProxy := val\<rparr> else service)"

text \<open>
  Lines 128 to 138: the service is started, the two listeners are spawned, and the
  command waits for a signal. When none ever arrives the command never returns.
\<close>

definition serve :: "world \<Rightarrow> Config \<Rightarrow> werft_Service \<Rightarrow> run" where
  "serve w cfg service =
     after [ServiceStart service,
            GoStartWeb service (CHR '':'' # sprintf_d (sint (WebPort (Service cfg)))),
            GoStartGRPC service (CHR '':'' # sprintf_d (sint (GRPCPort (Service cfg)))),
            SignalNotify,
            LogInfo ''werft is up and running. Stop with SIGINT or CTRL+C'',
            ReceiveSignal]
       (if signal_arrives w
        then ([LogInfo ''Received SIGINT - shutting down''], Return None)
        else ([], Blocked))"

text \<open>
  The body of \<^verbatim>\<open>RunE\<close> (run.go, lines 52 to 139), statement by statement. Every
  \<^verbatim>\<open>if err != nil { return err }\<close> is the failing branch of the call before it.
  \<^verbatim>\<open>args[0]\<close> on an empty argument list is Go's index-out-of-range panic.
\<close>

definition RunE :: "world \<Rightarrow> cobra_Command \<Rightarrow> string list \<Rightarrow> run" where
  "RunE w cmd args =
    (case args of
       [] \<Rightarrow> ([], Panic)
     | arg0 # _ \<Rightarrow>
    after [ReadFile arg0]
    (case ioutil_ReadFile w arg0 of
       Inl err \<Rightarrow> fail err
     | Inr fc \<Rightarrow>
    after [Unmarshal fc]
    (case json_Unmarshal w fc of
       Inl err \<Rightarrow> fail err
     | Inr cfg \<Rightarrow>
    after (fst (loadKubeConfig w cfg))
    (case snd (loadKubeConfig w cfg) of
       Inl err \<Rightarrow> fail err
     | Inr kubeConfig \<Rightarrow>
    after [NewKeyFromFile (http_DefaultTransport w) (AppID (Config.GitHub cfg))
             (InstallationID (Config.GitHub cfg)) (PrivateKeyPath (Config.GitHub cfg))]
    (case ghinstallation_NewKeyFromFile w (http_DefaultTransport w) (AppID (Config.GitHub cfg))
             (InstallationID (Config.GitHub cfg)) (PrivateKeyPath (Config.GitHub cfg)) of
       Inl err \<Rightarrow> fail err
     | Inr ghtr \<Rightarrow>
    after [NewFileLogStore (LogStore (Storage cfg))]
    (case store_NewFileLogStore w (LogStore (Storage cfg)) of
       Inl err \<Rightarrow> fail err
     | Inr logStore \<Rightarrow>
    after [LogInfo ''connecting to database'', SqlOpen ''postgres'' (JobStore (Storage cfg))]
    (case sql_Open w ''postgres'' (JobStore (Storage cfg)) of
       Inl err \<Rightarrow> fail err
     | Inr db \<Rightarrow>
    after [Ping db]
    (case db_Ping w db of
       Some err \<Rightarrow> fail err
     | None \<Rightarrow>
    after [NewSQLJobStore db]
    (case store_NewSQLJobStore w db of
       Inl err \<Rightarrow> fail err
     | Inr jobStore \<Rightarrow>
    after [LogInfo ''connecting to kubernetes'', NewExecutor (newExecutorConfig cfg) kubeConfig]
    (case executor_NewExecutor w (newExecutorConfig cfg) kubeConfig of
       Inl err \<Rightarrow> fail err
     | Inr exec \<Rightarrow>
    after [ExecutorRun exec, FlagsGetString ''debug-webui-proxy'']
      (serve w cfg (newService w cmd cfg logStore jobStore exec (NewClient ghtr)))))))))))))"

text \<open>
  The command as cobra runs it: \<^verbatim>\<open>Args: cobra.ExactArgs(1)\<close> is checked first, and
  \<^verbatim>\<open>RunE\<close> runs only when the check passes.
\<close>

definition runCmd :: "world \<Rightarrow> cobra_Command \<Rightarrow> string list \<Rightarrow> run" where
  "runCmd w cmd args =
     (case ExactArgs 1 args of
        Some err \<Rightarrow> ([], Return (Some err))
      | None \<Rightarrow> RunE w cmd args)"

subsection \<open>Reading a run\<close>

text \<open>
  The calls that begin serving traffic: \<^verbatim>\<open>service.Start()\<close> and the two listeners.
\<close>

fun serves :: "event \<Rightarrow> bool" where
  "serves (ServiceStart _) = True"
| "serves (GoStartWeb _ _) = True"
| "serves (GoStartGRPC _ _) = True"
| "serves _ = False"

text \<open>
  The calls that reach for a store (the log store, the database, the job store) or for
  the cluster scheduler (the executor).
\<close>

fun connects :: "event \<Rightarrow> bool" where
  "connects (NewFileLogStore _) = True"
| "connects (SqlOpen _ _) = True"
| "connects (Ping _) = True"
| "connects (NewSQLJobStore _) = True"
| "connects (NewExecutor _ _) = True"
| "connects (ExecutorRun _) = True"
| "connects _ = False"

text \<open>
  The calls that reach outside the configuration file: Kubernetes, GitHub, the stores,
  the database and the executor.
\<close>

fun external :: "event \<Rightarrow> bool" where
  "external InClusterConfig = True"
| "external (BuildConfigFromFlags _ _) = True"
| "external (NewKeyFromFile _ _ _ _) = True"
| "external ev = connects ev"

text \<open>The services a run starts, in order.\<close>

fun started :: "event list \<Rightarrow> werft_Service list" where
  "started [] = []"
| "started (ServiceStart service # evs) = service # started evs"
| "started (_ # evs) = started evs"

subsection \<open>Concrete runs\<close>

text \<open>
  A configuration file with no kubeconfig path and no namespace, a world in which every
  call succeeds and a signal arrives, and variations of that world in which one call
  fails.
\<close>

definition cfg0 :: Config where
  "cfg0 =
     \<lparr>Service = \<lparr>WebPort = 8080, GRPCPort = 7777\<rparr>,
      Storage = \<lparr>LogStore = ''/var/werft/logs'', JobStore = ''dbname=werft''\<rparr>,
      Kubernetes = \<lparr>Kubeconfig = '''', Config_Kubernetes.Namespace = ''''\<rparr>,
      Config.GitHub =
        \<lparr>Config_GitHub.WebhookSecret = ''s3cret'', PrivateKeyPath = ''/key.pem'',
         InstallationID = 7, AppID = 42\<rparr>\<rparr>"

definition cutter0 :: Cutter where
  "cutter0 = \<lparr>marker = (\<lambda>line. None), default_segment = ''default''\<rparr>"

definition cutter1 :: Cutter where
  "cutter1 = \<lparr>marker = (\<lambda>line. None), default_segment = ''other''\<rparr>"

definition world0 :: world where
  "world0 =
     \<lparr>ioutil_ReadFile =
        (\<lambda>path. if path = ''config.json'' then Inr ''{}'' else Inl (Error ''no such file'')),
      json_Unmarshal =
        (\<lambda>fc. if fc = ''{}'' then Inr cfg0 else Inl (Error ''unexpected end of JSON input'')),
      rest_InClusterConfig = Inr (RestConfigRef 0),
      clientcmd_BuildConfigFromFlags = (\<lambda>masterUrl path. Inr (RestConfigRef 1)),
      http_DefaultTransport = RoundTripperRef 0,
      ghinstallation_NewKeyFromFile = (\<lambda>tr appID installationID path. Inr (TransportRef 0)),
      store_NewFileLogStore = (\<lambda>path. Inr (FileLogStoreRef 0)),
      sql_Open = (\<lambda>driver dsn. Inr (DBRef 0)),
      db_Ping = (\<lambda>db. None),
      store_NewSQLJobStore = (\<lambda>db. Inr (SQLJobStoreRef 0)),
      executor_NewExecutor = (\<lambda>execCfg kubeConfig. Inr (ExecutorRef 0)),
      logcutter_DefaultCutter = cutter0,
      signal_arrives = True\<rparr>"

definition world_db_down :: world where
  "world_db_down = world0\<lparr>sql_Open := (\<lambda>driver dsn. Inl (Error ''connection refused''))\<rparr>"

definition world_no_cluster :: world where
  "world_no_cluster = world0\<lparr>rest_InClusterConfig := Inl (Error ''not running in a cluster'')\<rparr>"

definition cmd0 :: cobra_Command where
  "cmd0 = (\<lambda>name. if name = ''debug-webui-proxy'' then Some '''' else None)"

definition args0 :: "string list" where
  "args0 = [''config.json'']"

section \<open>The Job Store and the Log Cutter, from the specification\<close>

text \<open>
  The packages pkg/store, pkg/logcutter and pkg/werft are not among the sources; run.go
  only calls their constructors. What follows is written from the specification
  (sections 3, 4.2, 4.3 and 6).
\<close>

subsection \<open>Phases\<close>

text \<open>
  Modelled from the spec: the phase of a job (section 3), one of Created, Scheduled,
  Running, Succeeded, Failed, Aborted. The type belongs to the absent pkg/werft.
\<close>

datatype Phase = Created | Scheduled | Running | Succeeded | Failed | Aborted

text \<open>
  Modelled from the spec: the position of a phase in the order
  \<^verbatim>\<open>Created < Scheduled < Running < {terminal}\<close> of section 8; the three terminal
  phases share the last position.
\<close>

fun phase_rank :: "Phase \<Rightarrow> nat" where
  "phase_rank Created = 0"
| "phase_rank Scheduled = 1"
| "phase_rank Running = 2"
| "phase_rank Succeeded = 3"
| "phase_rank Failed = 3"
| "phase_rank Aborted = 3"

text \<open>Modelled from the spec: the three terminal phases (sections 3 and 4.5).\<close>

fun terminal :: "Phase \<Rightarrow> bool" where
  "terminal Succeeded = True"
| "terminal Failed = True"
| "terminal Aborted = True"
| "terminal _ = False"

text \<open>
  Modelled from the spec: the partial order
  \<^verbatim>\<open>Created -> Scheduled -> Running -> {Succeeded|Failed|Aborted}\<close> of section 3. A phase
  is below itself and below every phase further along; two different terminal phases
  are not comparable.
\<close>

definition phase_le :: "Phase \<Rightarrow> Phase \<Rightarrow> bool" where
  "phase_le p q \<longleftrightarrow> p = q \<or> phase_rank p < phase_rank q"

subsection \<open>The Job Store\<close>

text \<open>
  Modelled from the spec: the durable record of a job (sections 3 and 6): its id, name
  and phase, and the transition log the store keeps with it, oldest entry first. Trigger
  metadata, timestamps and segment references play no part in the transitions and are
  left out. The record type belongs to the absent pkg/store.
\<close>

record Job =
  job_id :: nat
  job_name :: string
  phase :: Phase
  transitions :: "Phase list"

text \<open>
  Modelled from the spec: the Job Store of section 4.3 (pkg/store is absent): one record
  per job id, and the next id to assign.
\<close>

record JobStore =
  jobs :: "nat \<rightharpoonup> Job"
  next_id :: nat

text \<open>Modelled from the spec: a Job Store with no job.\<close>

definition empty_store :: JobStore where
  "empty_store = \<lparr>jobs = Map.empty, next_id = 0\<rparr>"

text \<open>
  Modelled from the spec: \<^verbatim>\<open>Create(job) -> id\<close> (section 4.3). The id is unique and
  assigned at creation (section 3); the job starts in the phase Created, the first
  entry of its transition log.
\<close>

definition Create :: "JobStore \<Rightarrow> string \<Rightarrow> nat \<times> JobStore" where
  "Create st nm =
     (next_id st,
      st\<lparr>jobs := (jobs st)(next_id st \<mapsto>
              \<lparr>job_id = next_id st, job_name = nm, phase = Created, transitions = [Created]\<rparr>),
         next_id := Suc (next_id st)\<rparr>)"

text \<open>Modelled from the spec: the two results of \<^verbatim>\<open>UpdateStatus\<close> (section 4.3).\<close>

datatype update_result = Success | Conflict

text \<open>
  Modelled from the spec: \<^verbatim>\<open>UpdateStatus(id, phase) -> success|Conflict\<close> (section 4.3).
  The store compares the requested phase with the stored one: a request along the
  partial order is written (the phase, and a new entry of the transition log); any other
  request is rejected with Conflict and nothing is written. The spec names no result for
  an id the store does not hold; nothing can be written then, and the model answers
  Conflict.
\<close>

definition UpdateStatus :: "JobStore \<Rightarrow> nat \<Rightarrow> Phase \<Rightarrow> update_result \<times> JobStore" where
  "UpdateStatus st i q =
     (case jobs st i of
        None \<Rightarrow> (Conflict, st)
      | Some j \<Rightarrow>
          if phase_le (phase j) q
          then (Success,
                st\<lparr>jobs := (jobs st)(i \<mapsto> j\<lparr>phase := q, transitions := transitions j @ [q]\<rparr>)\<rparr>)
          else (Conflict, st))"

text \<open>
  Modelled from the spec: \<^verbatim>\<open>Get(id) -> Job|NotFound\<close> (section 4.3); \<open>None\<close> is
  NotFound.
\<close>

definition Get :: "JobStore \<Rightarrow> nat \<Rightarrow> Job option" where
  "Get st i = jobs st i"

text \<open>
  Modelled from the spec: the writes a Job Store receives over time, in the order it
  serves them (section 5: writes for one job id are serialised), starting from the
  empty store.
\<close>

datatype store_op = OpCreate string | OpUpdateStatus nat Phase

fun apply_op :: "JobStore \<Rightarrow> store_op \<Rightarrow> JobStore" where
  "apply_op st (OpCreate nm) = snd (Create st nm)"
| "apply_op st (OpUpdateStatus i q) = snd (UpdateStatus st i q)"

definition run_ops :: "store_op list \<Rightarrow> JobStore" where
  "run_ops ops = foldl apply_op empty_store ops"

text \<open>
  Modelled from the spec: the monotonic-phase invariant of section 3, on the whole
  sequence of phases recorded for a job: the sequence is non-decreasing under the order
  of the phases, and at most one of the three terminal phases occurs in it.
\<close>

definition non_decreasing :: "Phase list \<Rightarrow> bool" where
  "non_decreasing h = sorted_wrt (\<lambda>p q. phase_rank p \<le> phase_rank q) h"

definition terminals_reached :: "Phase list \<Rightarrow> Phase list" where
  "terminals_reached h = remdups (filter terminal h)"

definition monotonic_history :: "Phase list \<Rightarrow> bool" where
  "monotonic_history h \<longleftrightarrow> non_decreasing h \<and> length (terminals_reached h) \<le> 1"

text \<open>
  What every stored job looks like: its log starts at Created, ends at the stored phase,
  and satisfies the invariant.
\<close>

definition job_ok :: "Job \<Rightarrow> bool" where
  "job_ok j \<longleftrightarrow>
     transitions j \<noteq> [] \<and> hd (transitions j) = Created \<and> last (transitions j) = phase j \<and>
     monotonic_history (transitions j)"

definition store_ok :: "JobStore \<Rightarrow> bool" where
  "store_ok st \<longleftrightarrow> (\<forall>i j. jobs st i = Some j \<longrightarrow> job_ok j)"

subsection \<open>The Log Cutter\<close>

text \<open>
  Modelled from the spec: a \<^verbatim>\<open>SegmentEvent\<close> is \<^verbatim>\<open>{Open(name) | Line(text) | Close}\<close>
  (section 4.2). The type belongs to the absent pkg/logcutter.
\<close>

datatype SegmentEvent = Open string | Line string | Close

text \<open>
  Modelled from the spec: exactly one segment is open at a time (section 3), so opening
  a segment, and the end of the input, close the segment that is open.
\<close>

definition closing :: "bool \<Rightarrow> SegmentEvent list" where
  "closing opened = (if opened then [Close] else [])"

text \<open>
  Modelled from the spec: \<^verbatim>\<open>Classify(stream of line)\<close> with the policy of section 4.2.
  A line the marker recognises opens a new segment named from the marker; any other line
  attaches to the currently open segment; if no marker has yet appeared, the line
  attaches to the implicit default segment, which is opened for it. The flag says
  whether a segment is open.
\<close>

fun classify_from :: "Cutter \<Rightarrow> bool \<Rightarrow> string list \<Rightarrow> SegmentEvent list" where
  "classify_from c opened [] = closing opened"
| "classify_from c opened (line # lines) =
     (case marker c line of
        Some segment \<Rightarrow> closing opened @ Open segment # classify_from c True lines
      | None \<Rightarrow>
          (if opened then [] else [Open (default_segment c)]) @
          Line line # classify_from c True lines)"

definition Classify :: "Cutter \<Rightarrow> string list \<Rightarrow> SegmentEvent list" where
  "Classify c lines = classify_from c False lines"

text \<open>
  Modelled from the spec: the segments of an event sequence (section 3), each with its
  name and the lines attached to it, in order. The boundaries of the segments are where
  one list of lines ends and the next begins.
\<close>

fun segments_from ::
  "(string \<times> string list) option \<Rightarrow> SegmentEvent list \<Rightarrow> (string \<times> string list) list" where
  "segments_from None [] = []"
| "segments_from (Some seg) [] = [seg]"
| "segments_from cur (Open segment # evs) =
     (case cur of None \<Rightarrow> [] | Some seg \<Rightarrow> [seg]) @ segments_from (Some (segment, [])) evs"
| "segments_from cur (Line line # evs) =
     (case cur of
        None \<Rightarrow> segments_from None evs
      | Some (segment, ls) \<Rightarrow> segments_from (Some (segment, ls @ [line])) evs)"
| "segments_from cur (Close # evs) =
     (case cur of None \<Rightarrow> [] | Some seg \<Rightarrow> [seg]) @ segments_from None evs"

definition segments :: "SegmentEvent list \<Rightarrow> (string \<times> string list) list" where
  "segments evs = segments_from None evs"

subsection \<open>Concrete stores\<close>





section \<open>The run command: how a run unfolds\<close>

lemma after_Pair: "after evs (tr, out) = (evs @ tr, out)"
  by (simp add: after_def)

lemma after_fail: "after evs (fail err) = (evs, Return (Some err))"
  by (simp add: after_def fail_def)

lemma after_after: "after evs (after evs' r) = after (evs @ evs') r"
  by (simp add: after_def)

lemma fst_after: "fst (after evs r) = evs @ fst r"
  by (simp add: after_def)

lemma snd_after: "snd (after evs r) = snd r"
  by (simp add: after_def)

lemma fst_serve:
  "fst (serve w cfg service) =
     [ServiceStart service,
      GoStartWeb service (CHR '':'' # sprintf_d (sint (WebPort (Service cfg)))),
      GoStartGRPC service (CHR '':'' # sprintf_d (sint (GRPCPort (Service cfg)))),
      SignalNotify,
      LogInfo ''werft is up and running. Stop with SIGINT or CTRL+C'',
      ReceiveSignal] @
     (if signal_arrives w then [LogInfo ''Received SIGINT - shutting down''] else [])"
  by (simp add: serve_def after_def)

lemma snd_serve:
  "snd (serve w cfg service) = (if signal_arrives w then Return None else Blocked)"
  by (simp add: serve_def after_def)

lemma fst_loadKubeConfig:
  "fst (loadKubeConfig w cfg) =
     (if Kubeconfig (Kubernetes cfg) = '''' then [InClusterConfig]
      else [BuildConfigFromFlags '''' (Kubeconfig (Kubernetes cfg))])"
  by (simp add: loadKubeConfig_def)

lemma snd_loadKubeConfig:
  "snd (loadKubeConfig w cfg) =
     (if Kubeconfig (Kubernetes cfg) = '''' then rest_InClusterConfig w
      else clientcmd_BuildConfigFromFlags w '''' (Kubeconfig (Kubernetes cfg)))"
  by (simp add: loadKubeConfig_def)

lemma newService_fields:
  "Logs (newService w cmd cfg logStore jobStore exec ghClient) = FileLogs logStore"
  "Jobs (newService w cmd cfg logStore jobStore exec ghClient) = SQLJobs jobStore"
  "Cutter (newService w cmd cfg logStore jobStore exec ghClient) = logcutter_DefaultCutter w"
  "Executor (newService w cmd cfg logStore jobStore exec ghClient) = exec"
  by (simp_all add: newService_def Let_def)

lemmas run_simps = fst_after snd_after fst_serve snd_serve fst_loadKubeConfig

lemma ExactArgs_1: "ExactArgs 1 args = None \<longleftrightarrow> (\<exists>arg0. args = [arg0])"
  by (cases args) (auto simp: ExactArgs_def)

text \<open>
  Every run of the command is one of eleven: the argument check fails, one of the nine
  fallible calls fails (and the run is the calls made so far, returning that error), or
  all succeed and the service is started.
\<close>

lemma runCmd_cases
  [case_names WrongArgs ReadFile Unmarshal KubeConfig NewKey LogStore SqlOpen Ping JobStore
     NewExecutor Serve]:
  obtains
    (WrongArgs) err where
      "length args \<noteq> 1" "ExactArgs 1 args = Some err"
      "runCmd w cmd args = ([], Return (Some err))"
  | (ReadFile) arg0 err where
      "args = [arg0]" "ioutil_ReadFile w arg0 = Inl err"
      "runCmd w cmd args = ([ReadFile arg0], Return (Some err))"
  | (Unmarshal) arg0 fc err where
      "args = [arg0]" "ioutil_ReadFile w arg0 = Inr fc" "json_Unmarshal w fc = Inl err"
      "runCmd w cmd args = ([ReadFile arg0, Unmarshal fc], Return (Some err))"
  | (KubeConfig) arg0 fc cfg err where
      "args = [arg0]" "ioutil_ReadFile w arg0 = Inr fc" "json_Unmarshal w fc = Inr cfg"
      "snd (loadKubeConfig w cfg) = Inl err"
      "runCmd w cmd args =
         ([ReadFile arg0, Unmarshal fc] @ fst (loadKubeConfig w cfg), Return (Some err))"
  | (NewKey) arg0 fc cfg kubeConfig err where
      "args = [arg0]" "ioutil_ReadFile w arg0 = Inr fc" "json_Unmarshal w fc = Inr cfg"
      "snd (loadKubeConfig w cfg) = Inr kubeConfig"
      "ghinstallation_NewKeyFromFile w (http_DefaultTransport w) (AppID (Config.GitHub cfg))
         (InstallationID (Config.GitHub cfg)) (PrivateKeyPath (Config.GitHub cfg)) = Inl err"
      "runCmd w cmd args =
         ([ReadFile arg0, Unmarshal fc] @ fst (loadKubeConfig w cfg) @
          [NewKeyFromFile (http_DefaultTransport w) (AppID (Config.GitHub cfg))
             (InstallationID (Config.GitHub cfg)) (PrivateKeyPath (Config.GitHub cfg))],
          Return (Some err))"
  | (LogStore) arg0 fc cfg kubeConfig ghtr err where
      "args = [arg0]" "ioutil_ReadFile w arg0 = Inr fc" "json_Unmarshal w fc = Inr cfg"
      "snd (loadKubeConfig w cfg) = Inr kubeConfig"
      "store_NewFileLogStore w (LogStore (Storage cfg)) = Inl err"
      "runCmd w cmd args =
         ([ReadFile arg0, Unmarshal fc] @ fst (loadKubeConfig w cfg) @
          [NewKeyFromFile (http_DefaultTransport w) (AppID (Config.GitHub cfg))
             (InstallationID (Config.GitHub cfg)) (PrivateKeyPath (Config.GitHub cfg)),
           NewFileLogStore (LogStore (Storage cfg))],
          Return (Some err))"
  | (SqlOpen) arg0 fc cfg kubeConfig ghtr logStore err where
      "args = [arg0]" "ioutil_ReadFile w arg0 = Inr fc" "json_Unmarshal w fc = Inr cfg"
      "snd (loadKubeConfig w cfg) = Inr kubeConfig"
      "sql_Open w ''postgres'' (JobStore (Storage cfg)) = Inl err"
      "runCmd w cmd args =
         ([ReadFile arg0, Unmarshal fc] @ fst (loadKubeConfig w cfg) @
          [NewKeyFromFile (http_DefaultTransport w) (AppID (Config.GitHub cfg))
             (InstallationID (Config.GitHub cfg)) (PrivateKeyPath (Config.GitHub cfg)),
           NewFileLogStore (LogStore (Storage cfg)),
           LogInfo ''connecting to database'',
           SqlOpen ''postgres'' (JobStore (Storage cfg))],
          Return (Some err))"
  | (Ping) arg0 fc cfg kubeConfig ghtr logStore db err where
      "args = [arg0]" "ioutil_ReadFile w arg0 = Inr fc" "json_Unmarshal w fc = Inr cfg"
      "snd (loadKubeConfig w cfg) = Inr kubeConfig"
      "sql_Open w ''postgres'' (JobStore (Storage cfg)) = Inr db"
      "db_Ping w db = Some err"
      "runCmd w cmd args =
         ([ReadFile arg0, Unmarshal fc] @ fst (loadKubeConfig w cfg) @
          [NewKeyFromFile (http_DefaultTransport w) (AppID (Config.GitHub cfg))
             (InstallationID (Config.GitHub cfg)) (PrivateKeyPath (Config.GitHub cfg)),
           NewFileLogStore (LogStore (Storage cfg)),
           LogInfo ''connecting to database'',
           SqlOpen ''postgres'' (JobStore (Storage cfg)),
           Ping db],
          Return (Some err))"
  | (JobStore) arg0 fc cfg kubeConfig ghtr logStore db err where
      "args = [arg0]" "ioutil_ReadFile w arg0 = Inr fc" "json_Unmarshal w fc = Inr cfg"
      "snd (loadKubeConfig w cfg) = Inr kubeConfig"
      "sql_Open w ''postgres'' (JobStore (Storage cfg)) = Inr db"
      "db_Ping w db = None"
      "store_NewSQLJobStore w db = Inl err"
      "runCmd w cmd args =
         ([ReadFile arg0, Unmarshal fc] @ fst (loadKubeConfig w cfg) @
          [NewKeyFromFile (http_DefaultTransport w) (AppID (Config.GitHub cfg))
             (InstallationID (Config.GitHub cfg)) (PrivateKeyPath (Config.GitHub cfg)),
           NewFileLogStore (LogStore (Storage cfg)),
           LogInfo ''connecting to database'',
           SqlOpen ''postgres'' (JobStore (Storage cfg)),
           Ping db,
           NewSQLJobStore db],
          Return (Some err))"
  | (NewExecutor) arg0 fc cfg kubeConfig ghtr logStore db jobStore err where
      "args = [arg0]" "ioutil_ReadFile w arg0 = Inr fc" "json_Unmarshal w fc = Inr cfg"
      "snd (loadKubeConfig w cfg) = Inr kubeConfig"
      "sql_Open w ''postgres'' (JobStore (Storage cfg)) = Inr db"
      "db_Ping w db = None"
      "store_NewSQLJobStore w db = Inr jobStore"
      "executor_NewExecutor w (newExecutorConfig cfg) kubeConfig = Inl err"
      "runCmd w cmd args =
         ([ReadFile arg0, Unmarshal fc] @ fst (loadKubeConfig w cfg) @
          [NewKeyFromFile (http_DefaultTransport w) (AppID (Config.GitHub cfg))
             (InstallationID (Config.GitHub cfg)) (PrivateKeyPath (Config.GitHub cfg)),
           NewFileLogStore (LogStore (Storage cfg)),
           LogInfo ''connecting to database'',
           SqlOpen ''postgres'' (JobStore (Storage cfg)),
           Ping db,
           NewSQLJobStore db,
           LogInfo ''connecting to kubernetes'',
           NewExecutor (newExecutorConfig cfg) kubeConfig],
          Return (Some err))"
  | (Serve) arg0 fc cfg kubeConfig ghtr logStore db jobStore exec where
      "args = [arg0]" "ioutil_ReadFile w arg0 = Inr fc" "json_Unmarshal w fc = Inr cfg"
      "snd (loadKubeConfig w cfg) = Inr kubeConfig"
      "ghinstallation_NewKeyFromFile w (http_DefaultTransport w) (AppID (Config.GitHub cfg))
         (InstallationID (Config.GitHub cfg)) (PrivateKeyPath (Config.GitHub cfg)) = Inr ghtr"
      "store_NewFileLogStore w (LogStore (Storage cfg)) = Inr logStore"
      "sql_Open w ''postgres'' (JobStore (Storage cfg)) = Inr db"
      "db_Ping w db = None"
      "store_NewSQLJobStore w db = Inr jobStore"
      "executor_NewExecutor w (newExecutorConfig cfg) kubeConfig = Inr exec"
      "runCmd w cmd args =
         after
           ([ReadFile arg0, Unmarshal fc] @ fst (loadKubeConfig w cfg) @
            [NewKeyFromFile (http_DefaultTransport w) (AppID (Config.GitHub cfg))
               (InstallationID (Config.GitHub cfg)) (PrivateKeyPath (Config.GitHub cfg)),
             NewFileLogStore (LogStore (Storage cfg)),
             LogInfo ''connecting to database'',
             SqlOpen ''postgres'' (JobStore (Storage cfg)),
             Ping db,
             NewSQLJobStore db,
             LogInfo ''connecting to kubernetes'',
             NewExecutor (newExecutorConfig cfg) kubeConfig,
             ExecutorRun exec,
             FlagsGetString ''debug-webui-proxy''])
           (serve w cfg (newService w cmd cfg logStore jobStore exec (NewClient ghtr)))"
proof (cases "ExactArgs 1 args")
  case (Some err)
  then have "length args \<noteq> 1"
    by (auto simp: ExactArgs_def split: if_splits)
  moreover have "runCmd w cmd args = ([], Return (Some err))"
    using Some by (simp add: runCmd_def)
  ultimately show ?thesis using Some WrongArgs by blast
next
  case None
  then obtain arg0 where args: "args = [arg0]"
    using ExactArgs_1 by blast
  have run: "runCmd w cmd args = RunE w cmd [arg0]"
    using None by (simp add: runCmd_def args)
  note defs = run RunE_def after_fail after_after after_Pair
  show ?thesis
  proof (cases "ioutil_ReadFile w arg0")
    case (Inl err)
    then show ?thesis using ReadFile [OF args Inl] by (simp add: defs)
  next
    case fc: (Inr fc)
    show ?thesis
    proof (cases "json_Unmarshal w fc")
      case (Inl err)
      then show ?thesis using Unmarshal [OF args fc Inl] by (simp add: defs fc)
    next
      case cfg: (Inr cfg)
      show ?thesis
      proof (cases "snd (loadKubeConfig w cfg)")
        case (Inl err)
        then show ?thesis using KubeConfig [OF args fc cfg Inl] by (simp add: defs fc cfg)
      next
        case kc: (Inr kubeConfig)
        show ?thesis
        proof (cases "ghinstallation_NewKeyFromFile w (http_DefaultTransport w)
            (AppID (Config.GitHub cfg)) (InstallationID (Config.GitHub cfg))
            (PrivateKeyPath (Config.GitHub cfg))")
          case (Inl err)
          then show ?thesis using NewKey [OF args fc cfg kc Inl] by (simp add: defs fc cfg kc)
        next
          case key: (Inr ghtr)
          show ?thesis
          proof (cases "store_NewFileLogStore w (LogStore (Storage cfg))")
            case (Inl err)
            then show ?thesis using LogStore [OF args fc cfg kc Inl]
              by (simp add: defs fc cfg kc key)
          next
            case ls: (Inr logStore)
            show ?thesis
            proof (cases "sql_Open w ''postgres'' (JobStore (Storage cfg))")
              case (Inl err)
              then show ?thesis using SqlOpen [OF args fc cfg kc Inl]
                by (simp add: defs fc cfg kc key ls)
            next
              case db: (Inr db)
              show ?thesis
              proof (cases "db_Ping w db")
                case (Some err)
                then show ?thesis using Ping [OF args fc cfg kc db Some]
                  by (simp add: defs fc cfg kc key ls db)
              next
                case ping: None
                show ?thesis
                proof (cases "store_NewSQLJobStore w db")
                  case (Inl err)
                  then show ?thesis using JobStore [OF args fc cfg kc db ping Inl]
                    by (simp add: defs fc cfg kc key ls db ping)
                next
                  case js: (Inr jobStore)
                  show ?thesis
                  proof (cases "executor_NewExecutor w (newExecutorConfig cfg) kubeConfig")
                    case (Inl err)
                    then show ?thesis using NewExecutor [OF args fc cfg kc db ping js Inl]
                      by (simp add: defs fc cfg kc key ls db ping js)
                  next
                    case ex: (Inr exec)
                    then show ?thesis using Serve [OF args fc cfg kc key ls db ping js ex]
                      by (simp add: defs fc cfg kc key ls db ping js)
                  qed
                qed
              qed
            qed
          qed
        qed
      qed
    qed
  qed
qed

lemmas eval_defs = runCmd_def RunE_def ExactArgs_def after_def fail_def GetString_def Let_def
  loadKubeConfig_def newExecutorConfig_def newService_def serve_def
  world0_def cmd0_def cfg0_def args0_def

lemma run_world_db_down:
  "runCmd world_db_down cmd0 args0 =
     ([ReadFile ''config.json'', Unmarshal ''{}'', InClusterConfig,
       NewKeyFromFile (RoundTripperRef 0) 42 7 ''/key.pem'',
       NewFileLogStore ''/var/werft/logs'', LogInfo ''connecting to database'',
       SqlOpen ''postgres'' ''dbname=werft''],
      Return (Some (Error ''connection refused'')))"
  by (simp add: eval_defs world_db_down_def)

lemma run_world_no_cluster:
  "runCmd world_no_cluster cmd0 args0 =
     ([ReadFile ''config.json'', Unmarshal ''{}'', InClusterConfig],
      Return (Some (Error ''not running in a cluster'')))"
  by (simp add: eval_defs world_no_cluster_def)

lemma started_world0:
  "started (fst (runCmd (world0\<lparr>logcutter_DefaultCutter := c\<rparr>) cmd0 args0)) =
     [\<lparr>Logs = FileLogs (FileLogStoreRef 0), Jobs = SQLJobs (SQLJobStoreRef 0),
       Executor = ExecutorRef 0, Cutter = c,
       GitHub = \<lparr>werft_GitHubSetup.WebhookSecret = ''s3cret'',
                 Client = NewClient (TransportRef 0)\<rparr>,
       DebugProxy = ''''\<rparr>]"
  by (simp add: eval_defs)

lemma world0_cutter: "world0\<lparr>logcutter_DefaultCutter := cutter0\<rparr> = world0"
  by (simp add: world0_def)

lemma ServiceStart_world0:
  "ServiceStart
     \<lparr>Logs = FileLogs (FileLogStoreRef 0), Jobs = SQLJobs (SQLJobStoreRef 0),
      Executor = ExecutorRef 0, Cutter = cutter0,
      GitHub = \<lparr>werft_GitHubSetup.WebhookSecret = ''s3cret'',
                Client = NewClient (TransportRef 0)\<rparr>,
      DebugProxy = ''''\<rparr>
   \<in> set (fst (runCmd world0 cmd0 args0))"
  by (simp add: eval_defs)

section \<open>The run command: the claims\<close>

text \<open>
  Claim C1. For every configuration, if connecting to the job store (opening or pinging
  the PostgreSQL database, or building the SQL job store on it) or to the cluster
  scheduler (building the Kubernetes client configuration or the executor) fails during
  startup, the run command returns that error and the service never begins serving
  traffic: \<^verbatim>\<open>Service.Start\<close>, \<^verbatim>\<open>StartWeb\<close> and \<^verbatim>\<open>StartGRPC\<close> are not invoked.
  A connection fails during startup when the run makes the call and the world answers
  it with an error.
\<close>

theorem boot_failure_returns_error_without_serving:
  assumes
    "(\<exists>driver dsn. SqlOpen driver dsn \<in> set (fst (runCmd w cmd args)) \<and>
        sql_Open w driver dsn = Inl err)
     \<or> (\<exists>db. Ping db \<in> set (fst (runCmd w cmd args)) \<and> db_Ping w db = Some err)
     \<or> (\<exists>db. NewSQLJobStore db \<in> set (fst (runCmd w cmd args)) \<and>
        store_NewSQLJobStore w db = Inl err)
     \<or> (\<exists>execCfg kubeConfig. NewExecutor execCfg kubeConfig \<in> set (fst (runCmd w cmd args)) \<and>
        executor_NewExecutor w execCfg kubeConfig = Inl err)
     \<or> (InClusterConfig \<in> set (fst (runCmd w cmd args)) \<and> rest_InClusterConfig w = Inl err)
     \<or> (\<exists>masterUrl path. BuildConfigFromFlags masterUrl path \<in> set (fst (runCmd w cmd args)) \<and>
        clientcmd_BuildConfigFromFlags w masterUrl path = Inl err)"
  shows "snd (runCmd w cmd args) = Return (Some err) \<and>
         filter serves (fst (runCmd w cmd args)) = []"
  using assms
  by (cases w cmd args rule: runCmd_cases)
     (auto simp: run_simps snd_loadKubeConfig split: if_splits)

theorem boot_failure_witness:
  "SqlOpen ''postgres'' ''dbname=werft'' \<in> set (fst (runCmd world_db_down cmd0 args0)) \<and>
   sql_Open world_db_down ''postgres'' ''dbname=werft'' = Inl (Error ''connection refused'') \<and>
   snd (runCmd world_db_down cmd0 args0) = Return (Some (Error ''connection refused'')) \<and>
   filter serves (fst (runCmd world_db_down cmd0 args0)) = []"
proof -
  have tr: "SqlOpen ''postgres'' ''dbname=werft'' \<in> set (fst (runCmd world_db_down cmd0 args0))"
    by (simp add: run_world_db_down)
  have res: "sql_Open world_db_down ''postgres'' ''dbname=werft'' =
      Inl (Error ''connection refused'')"
    by (simp add: world_db_down_def)
  from tr res have
    "(\<exists>driver dsn. SqlOpen driver dsn \<in> set (fst (runCmd world_db_down cmd0 args0)) \<and>
        sql_Open world_db_down driver dsn = Inl (Error ''connection refused''))
     \<or> (\<exists>db. Ping db \<in> set (fst (runCmd world_db_down cmd0 args0)) \<and>
        db_Ping world_db_down db = Some (Error ''connection refused''))
     \<or> (\<exists>db. NewSQLJobStore db \<in> set (fst (runCmd world_db_down cmd0 args0)) \<and>
        store_NewSQLJobStore world_db_down db = Inl (Error ''connection refused''))
     \<or> (\<exists>execCfg kubeConfig.
          NewExecutor execCfg kubeConfig \<in> set (fst (runCmd world_db_down cmd0 args0)) \<and>
          executor_NewExecutor world_db_down execCfg kubeConfig =
            Inl (Error ''connection refused''))
     \<or> (InClusterConfig \<in> set (fst (runCmd world_db_down cmd0 args0)) \<and>
          rest_InClusterConfig world_db_down = Inl (Error ''connection refused''))
     \<or> (\<exists>masterUrl path.
          BuildConfigFromFlags masterUrl path \<in> set (fst (runCmd world_db_down cmd0 args0)) \<and>
          clientcmd_BuildConfigFromFlags world_db_down masterUrl path =
            Inl (Error ''connection refused''))"
    by blast
  from boot_failure_returns_error_without_serving [OF this] tr res show ?thesis
    by simp
qed

text \<open>
  Claim C2, as amended. The log classifier is handed to the service explicitly, as the
  \<^verbatim>\<open>Cutter\<close> field of the one service value the run starts, and its value is the
  package-level variable \<^verbatim>\<open>logcutter.DefaultCutter\<close> of the process, whatever the
  configuration file says.
\<close>

theorem service_cutter_is_package_default:
  assumes "ServiceStart service \<in> set (fst (runCmd w cmd args))"
  shows "Cutter service = logcutter_DefaultCutter w \<and>
         started (fst (runCmd w cmd args)) = [service]"
  using assms
  by (cases w cmd args rule: runCmd_cases)
     (auto simp: run_simps newService_fields split: if_splits)

theorem service_cutter_witness:
  "ServiceStart
     \<lparr>Logs = FileLogs (FileLogStoreRef 0), Jobs = SQLJobs (SQLJobStoreRef 0),
      Executor = ExecutorRef 0, Cutter = cutter0,
      GitHub = \<lparr>werft_GitHubSetup.WebhookSecret = ''s3cret'',
                Client = NewClient (TransportRef 0)\<rparr>,
      DebugProxy = ''''\<rparr>
     \<in> set (fst (runCmd world0 cmd0 args0)) \<and>
   cutter0 = logcutter_DefaultCutter world0 \<and>
   length (started (fst (runCmd world0 cmd0 args0))) = 1"
  using service_cutter_is_package_default [OF ServiceStart_world0] ServiceStart_world0
  by simp

text \<open>
  Claim C2 as stated fails: the classifier of the started service is the process-wide
  default. With one and the same configuration file, the service runs with whatever the
  package variable holds, and a different value of the variable gives the service a
  different classifier.
\<close>

theorem cutter_follows_package_variable:
  "map Cutter (started (fst (runCmd world0 cmd0 args0))) = [logcutter_DefaultCutter world0] \<and>
   map Cutter (started (fst (runCmd (world0\<lparr>logcutter_DefaultCutter := cutter1\<rparr>) cmd0 args0))) =
     [cutter1] \<and>
   cutter1 \<noteq> logcutter_DefaultCutter world0"
proof -
  have "map Cutter (started (fst (runCmd world0 cmd0 args0))) = [cutter0]"
    using started_world0 [of cutter0] by (simp add: world0_cutter)
  moreover have "logcutter_DefaultCutter world0 = cutter0"
    by (simp add: world0_def)
  moreover have "cutter1 \<noteq> cutter0"
    by (simp add: cutter1_def cutter0_def)
  ultimately show ?thesis
    by (simp add: started_world0)
qed

text \<open>
  Claim C3, as amended. The backend of each store is fixed by the run command, not
  selected by the configuration: the service's Log Store is always the file-based
  variant, opened at the configured \<^verbatim>\<open>logsPath\<close>, and its Job Store is always the
  relational variant, built on the PostgreSQL database opened from the configured
  \<^verbatim>\<open>jobsConnectionString\<close>. The configuration supplies the path and the connection
  string only, before the service starts.
\<close>

theorem store_backends_are_fixed:
  assumes "ServiceStart service \<in> set (fst (runCmd w cmd args))"
  shows "\<exists>arg0 fc cfg logStore db jobStore.
      args = [arg0] \<and> ioutil_ReadFile w arg0 = Inr fc \<and> json_Unmarshal w fc = Inr cfg \<and>
      store_NewFileLogStore w (LogStore (Storage cfg)) = Inr logStore \<and>
      Logs service = FileLogs logStore \<and>
      sql_Open w ''postgres'' (JobStore (Storage cfg)) = Inr db \<and>
      store_NewSQLJobStore w db = Inr jobStore \<and>
      Jobs service = SQLJobs jobStore \<and>
      logs_backend (Logs service) = FileBased \<and>
      jobs_backend (Jobs service) = Relational"
  using assms
  by (cases w cmd args rule: runCmd_cases)
     (auto simp: run_simps newService_fields split: if_splits)

theorem store_backends_witness:
  "ServiceStart
     \<lparr>Logs = FileLogs (FileLogStoreRef 0), Jobs = SQLJobs (SQLJobStoreRef 0),
      Executor = ExecutorRef 0, Cutter = cutter0,
      GitHub = \<lparr>werft_GitHubSetup.WebhookSecret = ''s3cret'',
                Client = NewClient (TransportRef 0)\<rparr>,
      DebugProxy = ''''\<rparr>
     \<in> set (fst (runCmd world0 cmd0 args0)) \<and>
   logs_backend (FileLogs (FileLogStoreRef 0)) = FileBased \<and>
   jobs_backend (SQLJobs (SQLJobStoreRef 0)) = Relational"
  using store_backends_are_fixed [OF ServiceStart_world0] ServiceStart_world0
  by simp

lemma started_service_backends:
  "ServiceStart service \<in> set (fst (runCmd w cmd args)) \<Longrightarrow>
   logs_backend (Logs service) = FileBased \<and> jobs_backend (Jobs service) = Relational"
  by (cases w cmd args rule: runCmd_cases)
     (auto simp: run_simps newService_fields split: if_splits)

text \<open>
  Claim C3 as stated fails: no configuration, and no world, makes the run command start
  a service on a relational Log Store or on a file-based Job Store.
\<close>

theorem no_backend_selection:
  "\<not> (\<exists>w cmd args service.
        ServiceStart service \<in> set (fst (runCmd w cmd args)) \<and>
        (logs_backend (Logs service) = Relational \<or> jobs_backend (Jobs service) = FileBased))"
  using started_service_backends by fastforce

text \<open>
  Claim C8. For every configuration, the namespace passed to the executor equals the
  configured Kubernetes namespace when that value is non-empty, and equals the string
  \<^verbatim>\<open>default\<close> when the configured namespace is the empty string. The configuration is
  the one decoded from the file named by the command's argument.
\<close>

theorem executor_namespace_defaults:
  assumes "NewExecutor execCfg kubeConfig \<in> set (fst (runCmd w cmd args))"
  shows "\<exists>arg0 fc cfg.
      args = [arg0] \<and> ioutil_ReadFile w arg0 = Inr fc \<and> json_Unmarshal w fc = Inr cfg \<and>
      executor_Config.Namespace execCfg =
        (if Config_Kubernetes.Namespace (Kubernetes cfg) = '''' then ''default''
         else Config_Kubernetes.Namespace (Kubernetes cfg))"
  using assms
  by (cases w cmd args rule: runCmd_cases)
     (auto simp: run_simps newExecutorConfig_def split: if_splits)

theorem executor_namespace_witness:
  "NewExecutor \<lparr>executor_Config.Namespace = ''default''\<rparr> (RestConfigRef 0)
     \<in> set (fst (runCmd world0 cmd0 args0)) \<and>
   json_Unmarshal world0 ''{}'' = Inr cfg0 \<and>
   Config_Kubernetes.Namespace (Kubernetes cfg0) = '''' \<and>
   executor_Config.Namespace \<lparr>executor_Config.Namespace = ''default''\<rparr> = ''default''"
proof -
  have tr: "NewExecutor \<lparr>executor_Config.Namespace = ''default''\<rparr> (RestConfigRef 0)
     \<in> set (fst (runCmd world0 cmd0 args0))"
    by (simp add: eval_defs)
  from executor_namespace_defaults [OF tr] tr show ?thesis
    by (simp add: world0_def cfg0_def)
qed

text \<open>
  Claim C9. For every configuration, the Kubernetes client configuration is taken from
  the in-cluster environment exactly when the configured kubeconfig path is the empty
  string, and is built from the named kubeconfig file otherwise (it is the value later
  handed to the executor); in either case a failure to build it makes the run command
  return the error before any store or scheduler connection is attempted.
\<close>

theorem kube_config_source:
  assumes "args = [arg0]" "ioutil_ReadFile w arg0 = Inr fc" "json_Unmarshal w fc = Inr cfg"
  shows
    "(InClusterConfig \<in> set (fst (runCmd w cmd args)) \<longleftrightarrow> Kubeconfig (Kubernetes cfg) = '''')
     \<and> (\<forall>masterUrl path.
          BuildConfigFromFlags masterUrl path \<in> set (fst (runCmd w cmd args)) \<longleftrightarrow>
          Kubeconfig (Kubernetes cfg) \<noteq> '''' \<and> masterUrl = '''' \<and>
          path = Kubeconfig (Kubernetes cfg))
     \<and> (\<forall>err.
          (if Kubeconfig (Kubernetes cfg) = '''' then rest_InClusterConfig w
           else clientcmd_BuildConfigFromFlags w '''' (Kubeconfig (Kubernetes cfg))) = Inl err \<longrightarrow>
          snd (runCmd w cmd args) = Return (Some err) \<and>
          filter connects (fst (runCmd w cmd args)) = [] \<and>
          filter serves (fst (runCmd w cmd args)) = [])
     \<and> (\<forall>execCfg kubeConfig.
          NewExecutor execCfg kubeConfig \<in> set (fst (runCmd w cmd args)) \<longrightarrow>
          (if Kubeconfig (Kubernetes cfg) = '''' then rest_InClusterConfig w
           else clientcmd_BuildConfigFromFlags w '''' (Kubeconfig (Kubernetes cfg))) =
            Inr kubeConfig)"
  using assms
  by (cases w cmd args rule: runCmd_cases)
     (auto simp: run_simps snd_loadKubeConfig split: if_splits)

theorem kube_config_witness:
  "args0 = [''config.json''] \<and>
   ioutil_ReadFile world_no_cluster ''config.json'' = Inr ''{}'' \<and>
   json_Unmarshal world_no_cluster ''{}'' = Inr cfg0 \<and>
   Kubeconfig (Kubernetes cfg0) = '''' \<and>
   rest_InClusterConfig world_no_cluster = Inl (Error ''not running in a cluster'') \<and>
   InClusterConfig \<in> set (fst (runCmd world_no_cluster cmd0 args0)) \<and>
   snd (runCmd world_no_cluster cmd0 args0) = Return (Some (Error ''not running in a cluster'')) \<and>
   filter connects (fst (runCmd world_no_cluster cmd0 args0)) = []"
proof -
  have a: "args0 = [''config.json'']"
    by (simp add: args0_def)
  have r: "ioutil_ReadFile world_no_cluster ''config.json'' = Inr ''{}''"
    by (simp add: world_no_cluster_def world0_def)
  have u: "json_Unmarshal world_no_cluster ''{}'' = Inr cfg0"
    by (simp add: world_no_cluster_def world0_def)
  have k: "Kubeconfig (Kubernetes cfg0) = ''''"
    by (simp add: cfg0_def)
  have e: "rest_InClusterConfig world_no_cluster = Inl (Error ''not running in a cluster'')"
    by (simp add: world_no_cluster_def)
  from kube_config_source [OF a r u, of cmd0] a r u k e show ?thesis
    by simp
qed

text \<open>
  Claim C10. The run command requires exactly one positional argument (the config file
  path): with any other number of arguments it returns the argument error and makes no
  call at all. If the config file cannot be read, or its contents do not decode as JSON
  for the type \<^verbatim>\<open>Config\<close>, the command returns that error, having made no call but
  the read and the decoding: no external connection (GitHub, database, Kubernetes) is
  opened and the service is not started.
\<close>

theorem config_errors_precede_connections:
  "(length args \<noteq> 1 \<longrightarrow>
      (\<exists>err. ExactArgs 1 args = Some err \<and> runCmd w cmd args = ([], Return (Some err))))
   \<and> (length args = 1 \<longrightarrow> runCmd w cmd args = RunE w cmd args)
   \<and> (\<forall>arg0 err. args = [arg0] \<and> ioutil_ReadFile w arg0 = Inl err \<longrightarrow>
         runCmd w cmd args = ([ReadFile arg0], Return (Some err)))
   \<and> (\<forall>arg0 fc err.
         args = [arg0] \<and> ioutil_ReadFile w arg0 = Inr fc \<and> json_Unmarshal w fc = Inl err \<longrightarrow>
         runCmd w cmd args = ([ReadFile arg0, Unmarshal fc], Return (Some err)))
   \<and> (length args \<noteq> 1 \<or>
        (\<exists>arg0. args = [arg0] \<and>
           (case ioutil_ReadFile w arg0 of
              Inl err \<Rightarrow> True
            | Inr fc \<Rightarrow> isl (json_Unmarshal w fc))) \<longrightarrow>
        filter external (fst (runCmd w cmd args)) = [] \<and>
        filter serves (fst (runCmd w cmd args)) = [])"
  by (cases w cmd args rule: runCmd_cases)
     (auto simp: run_simps runCmd_def ExactArgs_def split: if_splits sum.splits)

theorem config_errors_witness:
  "length ([] :: string list) \<noteq> 1 \<and>
   snd (runCmd world0 cmd0 []) = Return (ExactArgs 1 []) \<and>
   fst (runCmd world0 cmd0 []) = [] \<and>
   ioutil_ReadFile world0 ''missing.json'' = Inl (Error ''no such file'') \<and>
   runCmd world0 cmd0 [''missing.json''] =
     ([ReadFile ''missing.json''], Return (Some (Error ''no such file''))) \<and>
   filter external (fst (runCmd world0 cmd0 [''missing.json''])) = []"
proof -
  have r: "ioutil_ReadFile world0 ''missing.json'' = Inl (Error ''no such file'')"
    by (simp add: world0_def)
  from config_errors_precede_connections [of "[]" world0 cmd0]
  have "snd (runCmd world0 cmd0 []) = Return (ExactArgs 1 []) \<and> fst (runCmd world0 cmd0 []) = []"
    by auto
  moreover
  from config_errors_precede_connections [of "[''missing.json'']" world0 cmd0] r
  have "runCmd world0 cmd0 [''missing.json''] =
     ([ReadFile ''missing.json''], Return (Some (Error ''no such file'')))"
    by auto
  ultimately show ?thesis using r by simp
qed

section \<open>The Job Store: the phase invariant\<close>

lemma at_most_one_iff:
  "length (terminals_reached h) \<le> 1 \<longleftrightarrow>
   (\<forall>p\<in>set h. \<forall>q\<in>set h. terminal p \<longrightarrow> terminal q \<longrightarrow> p = q)"
proof -
  have "length (terminals_reached h) = card {p \<in> set h. terminal p}"
    by (simp add: terminals_reached_def length_remdups_card_conv)
  moreover have "finite {p \<in> set h. terminal p}"
    by simp
  ultimately show ?thesis
    by (auto simp: card_le_Suc0_iff_eq)
qed

lemmas at_most_one_simps = at_most_one_iff at_most_one_iff [unfolded One_nat_def]

lemma rank_terminal: "terminal p \<longleftrightarrow> phase_rank p = 3"
  by (cases p) auto

lemma rank_le_3: "phase_rank p \<le> 3"
  by (cases p) auto

lemma rank_inj_nonterminal: "phase_rank p = phase_rank q \<Longrightarrow> \<not> terminal p \<Longrightarrow> p = q"
  by (cases p; cases q) auto

text \<open>
  Two phases with the same position that may stand in one history are the same phase.
\<close>

lemma same_rank_same_phase:
  assumes "phase_rank p = phase_rank q"
    and "terminal p \<Longrightarrow> terminal q \<Longrightarrow> p = q"
  shows "p = q"
proof (cases "terminal p")
  case False
  with assms(1) show ?thesis by (rule rank_inj_nonterminal)
next
  case True
  with assms(1) have "terminal q" by (simp add: rank_terminal)
  with True assms(2) show ?thesis by simp
qed

text \<open>
  The check \<^verbatim>\<open>UpdateStatus\<close> makes, against the stored phase alone, decides the
  invariant of the whole history: a well-formed history stays well-formed under a new
  entry exactly when the entry is at or above the last one in the partial order.
\<close>

lemma monotonic_history_snoc:
  assumes "h \<noteq> []" "monotonic_history h"
  shows "monotonic_history (h @ [q]) \<longleftrightarrow> phase_le (last h) q"
proof
  assume ext: "monotonic_history (h @ [q])"
  from assms(1) have mem: "last h \<in> set h"
    by simp
  from ext mem have le: "phase_rank (last h) \<le> phase_rank q"
    by (auto simp: monotonic_history_def non_decreasing_def sorted_wrt_append)
  show "phase_le (last h) q"
  proof (cases "phase_rank (last h) = phase_rank q")
    case False
    with le show ?thesis by (simp add: phase_le_def)
  next
    case True
    moreover from ext mem have "last h = q" if "terminal (last h)" "terminal q"
      using that by (auto simp: monotonic_history_def at_most_one_simps)
    ultimately have "last h = q"
      by (rule same_rank_same_phase)
    then show ?thesis by (simp add: phase_le_def)
  qed
next
  assume le: "phase_le (last h) q"
  from assms have sorted: "non_decreasing h" and one: "length (terminals_reached h) \<le> 1"
    by (simp_all add: monotonic_history_def)
  have below: "phase_rank p \<le> phase_rank (last h)" if "p \<in> set h" for p
  proof (cases "p = last h")
    case True
    then show ?thesis by simp
  next
    case False
    from assms(1) have split: "h = butlast h @ [last h]"
      by simp
    with that False have "p \<in> set (butlast h)"
      by (metis Un_iff empty_iff insert_iff list.set(1) list.simps(15) set_append)
    moreover from sorted split
    have "sorted_wrt (\<lambda>p q. phase_rank p \<le> phase_rank q) (butlast h @ [last h])"
      by (simp add: non_decreasing_def)
    ultimately show ?thesis
      by (auto simp: sorted_wrt_append)
  qed
  show "monotonic_history (h @ [q])"
  proof (cases "last h = q")
    case True
    with assms(1) have "q \<in> set h"
      by auto
    with one have "length (terminals_reached (h @ [q])) \<le> 1"
      by (auto simp: at_most_one_simps)
    moreover from sorted below True have "non_decreasing (h @ [q])"
      by (auto simp: non_decreasing_def sorted_wrt_append)
    ultimately show ?thesis
      by (simp add: monotonic_history_def)
  next
    case False
    with le have lt: "phase_rank (last h) < phase_rank q"
      by (simp add: phase_le_def)
    have nt: "\<not> terminal p" if "p \<in> set h" for p
      using below [OF that] lt rank_le_3 [of q] by (simp add: rank_terminal)
    have "phase_rank p \<le> phase_rank q" if "p \<in> set h" for p
      using below [OF that] lt by simp
    with sorted have "non_decreasing (h @ [q])"
      by (simp add: non_decreasing_def sorted_wrt_append)
    moreover from nt have "length (terminals_reached (h @ [q])) \<le> 1"
      by (auto simp: at_most_one_simps)
    ultimately show ?thesis
      by (simp add: monotonic_history_def)
  qed
qed

lemma job_ok_Create:
  "job_ok \<lparr>job_id = i, job_name = nm, phase = Created, transitions = [Created]\<rparr>"
  by (simp add: job_ok_def monotonic_history_def non_decreasing_def terminals_reached_def)

lemma job_ok_update:
  assumes "job_ok j" "phase_le (phase j) q"
  shows "job_ok (j\<lparr>phase := q, transitions := transitions j @ [q]\<rparr>)"
  using assms monotonic_history_snoc [of "transitions j" q]
  by (simp add: job_ok_def)

lemma store_ok_empty: "store_ok empty_store"
  by (simp add: store_ok_def empty_store_def)

lemma store_ok_apply_op:
  assumes "store_ok st"
  shows "store_ok (apply_op st op)"
proof (cases op)
  case (OpCreate nm)
  with assms show ?thesis
    by (auto simp: store_ok_def Create_def job_ok_Create)
next
  case (OpUpdateStatus i q)
  with assms show ?thesis
    by (auto simp: store_ok_def UpdateStatus_def job_ok_update split: option.splits if_splits)
qed

lemma store_ok_foldl: "store_ok st \<Longrightarrow> store_ok (foldl apply_op st ops)"
  by (induction ops arbitrary: st) (simp_all add: store_ok_apply_op)

lemma store_ok_run_ops: "store_ok (run_ops ops)"
  by (simp add: run_ops_def store_ok_foldl store_ok_empty)

lemma stored_job_ok: "Get (run_ops ops) i = Some j \<Longrightarrow> job_ok j"
  using store_ok_run_ops [of ops] by (auto simp: store_ok_def Get_def)




section \<open>The Job Store: the claims\<close>




section \<open>The Job Store: what a status update does\<close>

text \<open>
  On the store of section 4.3, one \<^verbatim>\<open>UpdateStatus\<close> request served on its own answers
  Conflict and leaves the store unchanged exactly when the job's recorded history,
  extended by the requested phase, would no longer satisfy the invariant of section 3;
  otherwise it writes the phase and the log entry of that job and nothing else. A
  request for an id the store does not hold is answered Conflict. The statement is about
  requests served one after the other; it says nothing about writers that run at the
  same time.
\<close>

lemma UpdateStatus_rejects_violations:
  "(\<forall>j. Get (run_ops ops) i = Some j \<and> \<not> monotonic_history (transitions j @ [q]) \<longrightarrow>
        UpdateStatus (run_ops ops) i q = (Conflict, run_ops ops))
   \<and> (\<forall>j. Get (run_ops ops) i = Some j \<and> monotonic_history (transitions j @ [q]) \<longrightarrow>
        fst (UpdateStatus (run_ops ops) i q) = Success \<and>
        Get (snd (UpdateStatus (run_ops ops) i q)) i =
          Some (j\<lparr>phase := q, transitions := transitions j @ [q]\<rparr>) \<and>
        (\<forall>i'. i' \<noteq> i \<longrightarrow>
           Get (snd (UpdateStatus (run_ops ops) i q)) i' = Get (run_ops ops) i'))
   \<and> (Get (run_ops ops) i = None \<longrightarrow>
        UpdateStatus (run_ops ops) i q = (Conflict, run_ops ops))"
proof -
  have "monotonic_history (transitions j @ [q]) \<longleftrightarrow> phase_le (phase j) q"
    if "Get (run_ops ops) i = Some j" for j
    using stored_job_ok [OF that] monotonic_history_snoc [of "transitions j" q]
    by (simp add: job_ok_def)
  then show ?thesis
    by (auto simp: UpdateStatus_def Get_def)
qed

section \<open>The Log Cutter: the scenario of the specification\<close>

text \<open>
  For every cutter that reads the two marker lines of the scenario of section 8 as the
  openings of \<^verbatim>\<open>prepare\<close> and \<^verbatim>\<open>build\<close>, and the two other lines as plain lines, the
  four lines fall into the two segments of the scenario, the marker lines left out.
\<close>

lemma Classify_marked_lines:
  assumes "marker c ''=== prepare ==='' = Some ''prepare''"
    and "marker c ''cloning...'' = None"
    and "marker c ''=== build ==='' = Some ''build''"
    and "marker c ''compiling...'' = None"
  shows "segments (Classify c
           [''=== prepare ==='', ''cloning...'', ''=== build ==='', ''compiling...'']) =
         [(''prepare'', [''cloning...'']), (''build'', [''compiling...''])]"
  using assms by (simp add: Classify_def segments_def closing_def)

end
